theory Spec2Isabelle
  imports Main "HOL-Library.Word"
begin

section \<open>Stream live inputs: the client's data model\<close>

text \<open>
  The embedding follows \<^verbatim>\<open>stream_live_inputs.go\<close>. Go values are modelled as follows:
  a \<^verbatim>\<open>string\<close> is a \<^typ>\<open>string\<close>, an \<^verbatim>\<open>int\<close> is a 64-bit word, a pointer that may be
  \<^verbatim>\<open>nil\<close> is an \<^typ>\<open>'a option\<close>, an \<^verbatim>\<open>error\<close> return is an \<open>error option\<close> with
  \<^const>\<open>None\<close> for \<^verbatim>\<open>nil\<close>, and a slice keeps the difference between the \<^verbatim>\<open>nil\<close> slice
  and an allocated slice of length zero.
\<close>

type_synonym byte = "8 word"

type_synonym go_int = "64 word"

text \<open>A slice \<^verbatim>\<open>[]T\<close>: \<^verbatim>\<open>nil\<close> is \<open>NilSlice\<close>, the literal \<^verbatim>\<open>[]T{}\<close> is \<open>Slice []\<close>.\<close>

datatype 'a slice = NilSlice | Slice "'a list"

text \<open>A \<^verbatim>\<open>time.Time\<close>, kept as the instant it denotes.\<close>

datatype Time = Time (unix_nano: int)

text \<open>
  A value of type \<^verbatim>\<open>interface{}\<close> as the JSON codec produces it; a number is kept as
  the text of its literal.
\<close>

datatype any_value =
    AnyNil
  | AnyBool bool
  | AnyNumber string
  | AnyString string
  | AnyArray "any_value list"
  | AnyObject "(string \<times> any_value) list"

text \<open>A \<^verbatim>\<open>map[string]interface{}\<close>; the \<^verbatim>\<open>nil\<close> map is \<^const>\<open>None\<close>.\<close>

type_synonym meta_map = "(string \<rightharpoonup> any_value) option"

text \<open>
  The sentinel errors. \<open>ErrMissingLiveInputID\<close> is declared in this file of the
  package, \<open>ErrMissingAccountID\<close> in another one; every other error value (of the
  request executor or of the JSON codec) is an \<open>OtherError\<close> carrying its message.
\<close>

datatype error = ErrMissingAccountID | ErrMissingLiveInputID | OtherError string

record StreamLiveInputListItem =
  li_UID :: string
  li_Created :: "Time option"
  li_Modified :: "Time option"
  li_Meta :: meta_map
  li_DeleteRecordingAfterDays :: go_int

record StreamLiveInputRTMPS =
  rtmps_URL :: string
  rtmps_StreamKey :: string

record StreamLiveInputSRT =
  srt_URL :: string
  srt_StreamID :: string
  srt_Passphrase :: string

record StreamLiveInputWebRTC =
  webrtc_URL :: string

record StreamLiveInputStatus =
  st_Reason :: string
  st_State :: string
  st_StatusEnteredAt :: "Time option"
  st_StatusLastSeen :: "Time option"

record StreamLiveInputStatuses =
  sts_Current :: StreamLiveInputStatus
  sts_History :: "StreamLiveInputStatus slice"

record StreamLiveInputRecording =
  rec_Mode :: string
  rec_RequireSignedURLs :: bool
  rec_AllowedOrigins :: "string slice"
  rec_TimeoutSeconds :: go_int

record StreamLiveInput =
  in_UID :: string
  in_RTMPS :: StreamLiveInputRTMPS
  in_RTMPSPlayback :: StreamLiveInputRTMPS
  in_SRT :: StreamLiveInputSRT
  in_SRTPlayback :: StreamLiveInputRTMPS
  in_WebRTC :: StreamLiveInputWebRTC
  in_WebRTCPlayback :: StreamLiveInputWebRTC
  in_Created :: "Time option"
  in_Modified :: "Time option"
  in_Meta :: meta_map
  in_DefaultCreator :: string
  in_Status :: "StreamLiveInputStatuses option"
  in_Recording :: StreamLiveInputRecording
  in_DeleteRecordingAfterDays :: go_int
  in_PreferLowLatency :: bool

record ListStreamLiveInputsParameters =
  lp_AccountID :: string
  lp_IncludeCounts :: bool

record CreateStreamLiveInputParameters =
  cp_AccountID :: string
  cp_DefaultCreator :: string
  cp_DeleteRecordingAfterDays :: go_int
  cp_Meta :: meta_map
  cp_Recording :: StreamLiveInputRecording
  cp_PreferLowLatency :: bool

record StreamLiveInputParameters =
  sp_AccountID :: string
  sp_LiveInputID :: string

record UpdateStreamLiveInputParameters =
  up_AccountID :: string
  up_LiveInputID :: string
  up_DefaultCreator :: string
  up_DeleteRecordingAfterDays :: go_int
  up_Meta :: meta_map
  up_Recording :: StreamLiveInputRecording
  up_PreferLowLatency :: bool

text \<open>
  The response envelopes. The embedded \<^verbatim>\<open>Response\<close> struct is declared elsewhere in
  the package; its type is the parameter \<open>'r\<close>.
\<close>

record 'r StreamLiveInputsListResponse =
  lr_Response :: 'r
  lr_Result :: "StreamLiveInputListItem slice"

record 'r StreamLiveInputResponse =
  ir_Response :: 'r
  ir_Result :: StreamLiveInput

text \<open>
  Modelled from the spec: \<^verbatim>\<open>StreamListResponse\<close> and \<^verbatim>\<open>StreamVideo\<close> are declared in
  another file of the package. The envelope is the embedded \<^verbatim>\<open>Response\<close> with a
  \<^verbatim>\<open>result\<close> field holding an array of videos; the video type is the parameter \<open>'v\<close>.
\<close>

record ('r, 'v) StreamListResponse =
  vr_Response :: 'r
  vr_Result :: "'v slice"

subsection \<open>Zero values\<close>

text \<open>The composite literal \<^verbatim>\<open>StreamLiveInput{}\<close>: every field has its zero value.\<close>

definition StreamLiveInputRTMPS_zero :: StreamLiveInputRTMPS where
  "StreamLiveInputRTMPS_zero = \<lparr>rtmps_URL = [], rtmps_StreamKey = []\<rparr>"

definition StreamLiveInputSRT_zero :: StreamLiveInputSRT where
  "StreamLiveInputSRT_zero = \<lparr>srt_URL = [], srt_StreamID = [], srt_Passphrase = []\<rparr>"

definition StreamLiveInputWebRTC_zero :: StreamLiveInputWebRTC where
  "StreamLiveInputWebRTC_zero = \<lparr>webrtc_URL = []\<rparr>"

definition StreamLiveInputRecording_zero :: StreamLiveInputRecording where
  "StreamLiveInputRecording_zero =
     \<lparr>rec_Mode = [], rec_RequireSignedURLs = False, rec_AllowedOrigins = NilSlice,
      rec_TimeoutSeconds = 0\<rparr>"

definition StreamLiveInput_zero :: StreamLiveInput where
  "StreamLiveInput_zero =
     \<lparr>in_UID = [],
      in_RTMPS = StreamLiveInputRTMPS_zero,
      in_RTMPSPlayback = StreamLiveInputRTMPS_zero,
      in_SRT = StreamLiveInputSRT_zero,
      in_SRTPlayback = StreamLiveInputRTMPS_zero,
      in_WebRTC = StreamLiveInputWebRTC_zero,
      in_WebRTCPlayback = StreamLiveInputWebRTC_zero,
      in_Created = None,
      in_Modified = None,
      in_Meta = None,
      in_DefaultCreator = [],
      in_Status = None,
      in_Recording = StreamLiveInputRecording_zero,
      in_DeleteRecordingAfterDays = 0,
      in_PreferLowLatency = False\<rparr>"

section \<open>The request executor\<close>

text \<open>The constants of \<^verbatim>\<open>net/http\<close> that the client uses.\<close>

definition MethodGet :: string where "MethodGet = ''GET''"
definition MethodPost :: string where "MethodPost = ''POST''"
definition MethodPut :: string where "MethodPut = ''PUT''"
definition MethodDelete :: string where "MethodDelete = ''DELETE''"

text \<open>
  The \<^verbatim>\<open>params interface{}\<close> argument of the executor: \<^verbatim>\<open>nil\<close>, or the parameter struct
  of the calling operation.
\<close>

datatype request_params =
    ParamsNil
  | ParamsCreate CreateStreamLiveInputParameters
  | ParamsLiveInput StreamLiveInputParameters
  | ParamsUpdate UpdateStreamLiveInputParameters

record 'c request =
  rq_ctx :: 'c
  rq_method :: string
  rq_uri :: string
  rq_params :: request_params

text \<open>
  The client object \<^verbatim>\<open>*API\<close>. Of its state the model keeps the requests handed to
  the executor so far, oldest first.
\<close>

record 'c API =
  calls :: "'c request list"

text \<open>
  What the transport answers to a request, given the requests made before it: the body
  and the error (\<^const>\<open>None\<close> for \<^verbatim>\<open>nil\<close>).
\<close>

type_synonym 'c transport = "'c request list \<Rightarrow> 'c request \<Rightarrow> byte list \<times> error option"

text \<open>
  Modelled from the spec: \<^verbatim>\<open>makeRequestContext(ctx, method, uri, params)\<close> is a method of
  the package that is declared in another file. It performs one HTTP exchange and returns
  the raw bytes and an error. Its answer is the parameter \<open>exec\<close>; every invocation is
  appended to \<^const>\<open>calls\<close>.
\<close>

definition makeRequestContext ::
  "'c transport \<Rightarrow> 'c \<Rightarrow> string \<Rightarrow> string \<Rightarrow> request_params \<Rightarrow> 'c API
     \<Rightarrow> (byte list \<times> error option) \<times> 'c API" where
  "makeRequestContext exec ctx method uri params api =
     (let rq = \<lparr>rq_ctx = ctx, rq_method = method, rq_uri = uri, rq_params = params\<rparr>
      in (exec (calls api) rq, api\<lparr>calls := calls api @ [rq]\<rparr>))"

section \<open>The six operations\<close>

text \<open>
  \<^verbatim>\<open>fmt.Sprintf\<close> with \<^verbatim>\<open>%s\<close> verbs and string arguments is concatenation. The helper
  \<^verbatim>\<open>buildURI\<close> is declared in another file and is the parameter \<open>buildURI\<close>.
  \<^verbatim>\<open>json.Unmarshal(res, &v)\<close> on a freshly declared \<^verbatim>\<open>v\<close> is the parameter
  \<open>unmarshal\<close>: it gives what \<^verbatim>\<open>v\<close> holds afterwards (possibly filled in part when
  decoding fails) and the error.
\<close>

definition ListStreamLiveInputs ::
  "(string \<Rightarrow> ListStreamLiveInputsParameters \<Rightarrow> string) \<Rightarrow> 'c transport
     \<Rightarrow> (byte list \<Rightarrow> 'r StreamLiveInputsListResponse \<times> error option)
     \<Rightarrow> 'c \<Rightarrow> ListStreamLiveInputsParameters \<Rightarrow> 'c API
     \<Rightarrow> (StreamLiveInputListItem slice \<times> error option) \<times> 'c API" where
  "ListStreamLiveInputs buildURI exec unmarshal ctx options api =
     (if lp_AccountID options = [] then ((NilSlice, Some ErrMissingAccountID), api)
      else
        let uri = buildURI (''/accounts/'' @ lp_AccountID options @ ''/stream/live_inputs'') options;
            ((res, err), api') = makeRequestContext exec ctx MethodGet uri ParamsNil api
        in if err \<noteq> None then ((Slice [], err), api')
           else
             let (streamListResponse, err') = unmarshal res
             in if err' \<noteq> None then ((Slice [], err'), api')
                else ((lr_Result streamListResponse, None), api'))"

definition CreateStreamLiveInput ::
  "'c transport \<Rightarrow> (byte list \<Rightarrow> 'r StreamLiveInputResponse \<times> error option)
     \<Rightarrow> 'c \<Rightarrow> CreateStreamLiveInputParameters \<Rightarrow> 'c API
     \<Rightarrow> (StreamLiveInput \<times> error option) \<times> 'c API" where
  "CreateStreamLiveInput exec unmarshal ctx options api =
     (if cp_AccountID options = [] then ((StreamLiveInput_zero, Some ErrMissingAccountID), api)
      else
        let uri = ''/accounts/'' @ cp_AccountID options @ ''/stream/live_inputs'';
            ((res, err), api') = makeRequestContext exec ctx MethodPost uri (ParamsCreate options) api
        in if err \<noteq> None then ((StreamLiveInput_zero, err), api')
           else
             let (streamListResponse, err') = unmarshal res
             in if err' \<noteq> None then ((StreamLiveInput_zero, err'), api')
                else ((ir_Result streamListResponse, None), api'))"

definition DeleteStreamLiveInput ::
  "'c transport \<Rightarrow> 'c \<Rightarrow> StreamLiveInputParameters \<Rightarrow> 'c API \<Rightarrow> error option \<times> 'c API" where
  "DeleteStreamLiveInput exec ctx options api =
     (if sp_AccountID options = [] then (Some ErrMissingAccountID, api)
      else if sp_LiveInputID options = [] then (Some ErrMissingLiveInputID, api)
      else
        let uri = ''/accounts/'' @ sp_AccountID options @ ''/stream/live_inputs/''
                    @ sp_LiveInputID options;
            ((_, err), api') = makeRequestContext exec ctx MethodDelete uri (ParamsLiveInput options) api
        in if err \<noteq> None then (err, api')
           else (None, api'))"

definition GetStreamLiveInput ::
  "'c transport \<Rightarrow> (byte list \<Rightarrow> 'r StreamLiveInputResponse \<times> error option)
     \<Rightarrow> 'c \<Rightarrow> StreamLiveInputParameters \<Rightarrow> 'c API
     \<Rightarrow> (StreamLiveInput \<times> error option) \<times> 'c API" where
  "GetStreamLiveInput exec unmarshal ctx options api =
     (if sp_AccountID options = [] then ((StreamLiveInput_zero, Some ErrMissingAccountID), api)
      else if sp_LiveInputID options = [] then ((StreamLiveInput_zero, Some ErrMissingLiveInputID), api)
      else
        let uri = ''/accounts/'' @ sp_AccountID options @ ''/stream/live_inputs/''
                    @ sp_LiveInputID options;
            ((res, err), api') = makeRequestContext exec ctx MethodPost uri (ParamsLiveInput options) api
        in if err \<noteq> None then ((StreamLiveInput_zero, err), api')
           else
             let (streamListResponse, err') = unmarshal res
             in if err' \<noteq> None then ((StreamLiveInput_zero, err'), api')
                else ((ir_Result streamListResponse, None), api'))"

definition UpdateStreamLiveInput ::
  "'c transport \<Rightarrow> (byte list \<Rightarrow> 'r StreamLiveInputResponse \<times> error option)
     \<Rightarrow> 'c \<Rightarrow> UpdateStreamLiveInputParameters \<Rightarrow> 'c API
     \<Rightarrow> (StreamLiveInput \<times> error option) \<times> 'c API" where
  "UpdateStreamLiveInput exec unmarshal ctx options api =
     (if up_AccountID options = [] then ((StreamLiveInput_zero, Some ErrMissingAccountID), api)
      else if up_LiveInputID options = [] then ((StreamLiveInput_zero, Some ErrMissingLiveInputID), api)
      else
        let uri = ''/accounts/'' @ up_AccountID options @ ''/stream/live_inputs/''
                    @ up_LiveInputID options;
            ((res, err), api') = makeRequestContext exec ctx MethodPut uri (ParamsUpdate options) api
        in if err \<noteq> None then ((StreamLiveInput_zero, err), api')
           else
             let (streamListResponse, err') = unmarshal res
             in if err' \<noteq> None then ((StreamLiveInput_zero, err'), api')
                else ((ir_Result streamListResponse, None), api'))"

definition ListStreamLiveInputVideos ::
  "'c transport \<Rightarrow> (byte list \<Rightarrow> ('r, 'v) StreamListResponse \<times> error option)
     \<Rightarrow> 'c \<Rightarrow> StreamLiveInputParameters \<Rightarrow> 'c API
     \<Rightarrow> ('v slice \<times> error option) \<times> 'c API" where
  "ListStreamLiveInputVideos exec unmarshal ctx options api =
     (if sp_AccountID options = [] then ((Slice [], Some ErrMissingAccountID), api)
      else if sp_LiveInputID options = [] then ((Slice [], Some ErrMissingLiveInputID), api)
      else
        let uri = ''/accounts/'' @ sp_AccountID options @ ''/stream/live_inputs/''
                    @ sp_LiveInputID options @ ''/videos'';
            ((res, err), api') = makeRequestContext exec ctx MethodPost uri (ParamsLiveInput options) api
        in if err \<noteq> None then ((Slice [], err), api')
           else
             let (streamListResponse, err') = unmarshal res
             in if err' \<noteq> None then ((Slice [], err'), api')
                else ((vr_Result streamListResponse, None), api'))"

section \<open>Sample inputs\<close>

text \<open>
  Concrete parameters, executor answers and decoder outcomes at which the theorems of the
  next section are instantiated. They are abbreviations: each stands for the term on its
  right-hand side.
\<close>

abbreviation list_params :: "string \<Rightarrow> ListStreamLiveInputsParameters" where
  "list_params a \<equiv> \<lparr>lp_AccountID = a, lp_IncludeCounts = False\<rparr>"

abbreviation create_params :: "string \<Rightarrow> CreateStreamLiveInputParameters" where
  "create_params a \<equiv>
     \<lparr>cp_AccountID = a, cp_DefaultCreator = ''me'', cp_DeleteRecordingAfterDays = 30,
      cp_Meta = None, cp_Recording = StreamLiveInputRecording_zero, cp_PreferLowLatency = False\<rparr>"

abbreviation live_input_params :: "string \<Rightarrow> string \<Rightarrow> StreamLiveInputParameters" where
  "live_input_params a i \<equiv> \<lparr>sp_AccountID = a, sp_LiveInputID = i\<rparr>"

abbreviation update_params :: "string \<Rightarrow> string \<Rightarrow> UpdateStreamLiveInputParameters" where
  "update_params a i \<equiv>
     \<lparr>up_AccountID = a, up_LiveInputID = i, up_DefaultCreator = ''me'',
      up_DeleteRecordingAfterDays = 30, up_Meta = None,
      up_Recording = StreamLiveInputRecording_zero, up_PreferLowLatency = True\<rparr>"

text \<open>A client that has made no request yet; the context is the unit value.\<close>

abbreviation fresh_api :: "unit API" where
  "fresh_api \<equiv> \<lparr>calls = []\<rparr>"

text \<open>An executor that answers every request with the given body and no error.\<close>

abbreviation answers :: "byte list \<Rightarrow> unit transport" where
  "answers body \<equiv> (\<lambda>h rq. (body, None))"

text \<open>The bytes of \<^verbatim>\<open>{"result":[]}\<close> and of the truncated document \<^verbatim>\<open>{\<close>.\<close>

abbreviation empty_result_body :: "byte list" where
  "empty_result_body \<equiv>
     [0x7B, 0x22, 0x72, 0x65, 0x73, 0x75, 0x6C, 0x74, 0x22, 0x3A, 0x5B, 0x5D, 0x7D]"

abbreviation truncated_body :: "byte list" where
  "truncated_body \<equiv> [0x7B]"

text \<open>Envelopes: with an empty result array, and filled in part.\<close>

abbreviation empty_list_envelope :: "unit StreamLiveInputsListResponse" where
  "empty_list_envelope \<equiv> \<lparr>lr_Response = (), lr_Result = Slice []\<rparr>"

abbreviation partial_list_envelope :: "unit StreamLiveInputsListResponse" where
  "partial_list_envelope \<equiv>
     \<lparr>lr_Response = (),
      lr_Result = Slice [\<lparr>li_UID = ''x'', li_Created = None, li_Modified = None,
                          li_Meta = None, li_DeleteRecordingAfterDays = 0\<rparr>]\<rparr>"

abbreviation partial_input_envelope :: "unit StreamLiveInputResponse" where
  "partial_input_envelope \<equiv>
     \<lparr>ir_Response = (), ir_Result = StreamLiveInput_zero\<lparr>in_UID := ''x''\<rparr>\<rparr>"

abbreviation partial_video_envelope :: "(unit, string) StreamListResponse" where
  "partial_video_envelope \<equiv> \<lparr>vr_Response = (), vr_Result = Slice [''v1'']\<rparr>"

abbreviation decode_error :: error where
  "decode_error \<equiv> OtherError ''unexpected end of JSON input''"

text \<open>Decoders: one that succeeds with the given envelope, one that fails leaving it.\<close>

abbreviation decodes_to :: "'a \<Rightarrow> byte list \<Rightarrow> 'a \<times> error option" where
  "decodes_to v \<equiv> (\<lambda>b. (v, None))"

abbreviation fails_leaving :: "'a \<Rightarrow> byte list \<Rightarrow> 'a \<times> error option" where
  "fails_leaving v \<equiv> (\<lambda>b. (v, Some decode_error))"

section \<open>Properties\<close>

lemmas op_defs = ListStreamLiveInputs_def CreateStreamLiveInput_def DeleteStreamLiveInput_def
  GetStreamLiveInput_def UpdateStreamLiveInput_def ListStreamLiveInputVideos_def

lemma makeRequestContext_result:
  "makeRequestContext exec ctx method uri params api =
     (exec (calls api) \<lparr>rq_ctx = ctx, rq_method = method, rq_uri = uri, rq_params = params\<rparr>,
      api\<lparr>calls := calls api @ [\<lparr>rq_ctx = ctx, rq_method = method, rq_uri = uri, rq_params = params\<rparr>]\<rparr>)"
  by (simp add: makeRequestContext_def Let_def)

subsection \<open>Precondition checks\<close>

text \<open>
  C1. Each of the six operations, called with an empty account id, returns the sentinel
  \<open>ErrMissingAccountID\<close> and leaves the log of executor invocations as it was: the
  executor is not invoked.
\<close>

theorem missing_account_id_all_operations:
  assumes "lp_AccountID lo = []"
    and "cp_AccountID co = []"
    and "sp_AccountID so = []"
    and "up_AccountID uo = []"
  shows
    "snd (fst (ListStreamLiveInputs buildURI exec ul ctx lo api)) = Some ErrMissingAccountID
       \<and> calls (snd (ListStreamLiveInputs buildURI exec ul ctx lo api)) = calls api
     \<and> snd (fst (CreateStreamLiveInput exec ui ctx co api)) = Some ErrMissingAccountID
       \<and> calls (snd (CreateStreamLiveInput exec ui ctx co api)) = calls api
     \<and> snd (fst (GetStreamLiveInput exec ui ctx so api)) = Some ErrMissingAccountID
       \<and> calls (snd (GetStreamLiveInput exec ui ctx so api)) = calls api
     \<and> snd (fst (UpdateStreamLiveInput exec ui ctx uo api)) = Some ErrMissingAccountID
       \<and> calls (snd (UpdateStreamLiveInput exec ui ctx uo api)) = calls api
     \<and> fst (DeleteStreamLiveInput exec ctx so api) = Some ErrMissingAccountID
       \<and> calls (snd (DeleteStreamLiveInput exec ctx so api)) = calls api
     \<and> snd (fst (ListStreamLiveInputVideos exec uv ctx so api)) = Some ErrMissingAccountID
       \<and> calls (snd (ListStreamLiveInputVideos exec uv ctx so api)) = calls api"
  using assms by (simp add: op_defs)

theorem missing_account_id_all_operations_witness:
  "lp_AccountID (list_params []) = []
   \<and> cp_AccountID (create_params []) = []
   \<and> sp_AccountID (live_input_params [] ''li1'') = []
   \<and> up_AccountID (update_params [] ''li1'') = []
   \<and> snd (fst (ListStreamLiveInputs (\<lambda>p q. p) (answers empty_result_body) (decodes_to empty_list_envelope) () (list_params []) fresh_api)) = Some ErrMissingAccountID
       \<and> calls (snd (ListStreamLiveInputs (\<lambda>p q. p) (answers empty_result_body) (decodes_to empty_list_envelope) () (list_params []) fresh_api)) = calls fresh_api
     \<and> snd (fst (CreateStreamLiveInput (answers empty_result_body) (decodes_to partial_input_envelope) () (create_params []) fresh_api)) = Some ErrMissingAccountID
       \<and> calls (snd (CreateStreamLiveInput (answers empty_result_body) (decodes_to partial_input_envelope) () (create_params []) fresh_api)) = calls fresh_api
     \<and> snd (fst (GetStreamLiveInput (answers empty_result_body) (decodes_to partial_input_envelope) () (live_input_params [] ''li1'') fresh_api)) = Some ErrMissingAccountID
       \<and> calls (snd (GetStreamLiveInput (answers empty_result_body) (decodes_to partial_input_envelope) () (live_input_params [] ''li1'') fresh_api)) = calls fresh_api
     \<and> snd (fst (UpdateStreamLiveInput (answers empty_result_body) (decodes_to partial_input_envelope) () (update_params [] ''li1'') fresh_api)) = Some ErrMissingAccountID
       \<and> calls (snd (UpdateStreamLiveInput (answers empty_result_body) (decodes_to partial_input_envelope) () (update_params [] ''li1'') fresh_api)) = calls fresh_api
     \<and> fst (DeleteStreamLiveInput (answers empty_result_body) () (live_input_params [] ''li1'') fresh_api) = Some ErrMissingAccountID
       \<and> calls (snd (DeleteStreamLiveInput (answers empty_result_body) () (live_input_params [] ''li1'') fresh_api)) = calls fresh_api
     \<and> snd (fst (ListStreamLiveInputVideos (answers empty_result_body) (decodes_to partial_video_envelope) () (live_input_params [] ''li1'') fresh_api)) = Some ErrMissingAccountID
       \<and> calls (snd (ListStreamLiveInputVideos (answers empty_result_body) (decodes_to partial_video_envelope) () (live_input_params [] ''li1'') fresh_api)) = calls fresh_api"
  using missing_account_id_all_operations
    [where lo = "(list_params [])"
       and co = "(create_params [])"
       and so = "(live_input_params [] ''li1'')"
       and uo = "(update_params [] ''li1'')"
       and buildURI = "(\<lambda>p q. p)"
       and exec = "(answers empty_result_body)"
       and ul = "(decodes_to empty_list_envelope)"
       and ui = "(decodes_to partial_input_envelope)"
       and uv = "(decodes_to partial_video_envelope)"
       and ctx = "()"
       and api = "fresh_api"]
  by simp

text \<open>
  C2. Each of the four operations on one live input (get, update, delete, list videos),
  called with a non-empty account id and an empty live input id, returns the sentinel
  \<open>ErrMissingLiveInputID\<close> and does not invoke the executor.
\<close>

theorem missing_live_input_id_resource_operations:
  assumes "sp_AccountID so \<noteq> []"
    and "sp_LiveInputID so = []"
    and "up_AccountID uo \<noteq> []"
    and "up_LiveInputID uo = []"
  shows
    "snd (fst (GetStreamLiveInput exec ui ctx so api)) = Some ErrMissingLiveInputID
       \<and> calls (snd (GetStreamLiveInput exec ui ctx so api)) = calls api
     \<and> snd (fst (UpdateStreamLiveInput exec ui ctx uo api)) = Some ErrMissingLiveInputID
       \<and> calls (snd (UpdateStreamLiveInput exec ui ctx uo api)) = calls api
     \<and> fst (DeleteStreamLiveInput exec ctx so api) = Some ErrMissingLiveInputID
       \<and> calls (snd (DeleteStreamLiveInput exec ctx so api)) = calls api
     \<and> snd (fst (ListStreamLiveInputVideos exec uv ctx so api)) = Some ErrMissingLiveInputID
       \<and> calls (snd (ListStreamLiveInputVideos exec uv ctx so api)) = calls api"
  using assms by (simp add: op_defs)

theorem missing_live_input_id_resource_operations_witness:
  "sp_AccountID (live_input_params ''acct1'' []) \<noteq> []
   \<and> sp_LiveInputID (live_input_params ''acct1'' []) = []
   \<and> up_AccountID (update_params ''acct1'' []) \<noteq> []
   \<and> up_LiveInputID (update_params ''acct1'' []) = []
   \<and> snd (fst (GetStreamLiveInput (answers empty_result_body) (decodes_to partial_input_envelope) () (live_input_params ''acct1'' []) fresh_api)) = Some ErrMissingLiveInputID
       \<and> calls (snd (GetStreamLiveInput (answers empty_result_body) (decodes_to partial_input_envelope) () (live_input_params ''acct1'' []) fresh_api)) = calls fresh_api
     \<and> snd (fst (UpdateStreamLiveInput (answers empty_result_body) (decodes_to partial_input_envelope) () (update_params ''acct1'' []) fresh_api)) = Some ErrMissingLiveInputID
       \<and> calls (snd (UpdateStreamLiveInput (answers empty_result_body) (decodes_to partial_input_envelope) () (update_params ''acct1'' []) fresh_api)) = calls fresh_api
     \<and> fst (DeleteStreamLiveInput (answers empty_result_body) () (live_input_params ''acct1'' []) fresh_api) = Some ErrMissingLiveInputID
       \<and> calls (snd (DeleteStreamLiveInput (answers empty_result_body) () (live_input_params ''acct1'' []) fresh_api)) = calls fresh_api
     \<and> snd (fst (ListStreamLiveInputVideos (answers empty_result_body) (decodes_to partial_video_envelope) () (live_input_params ''acct1'' []) fresh_api)) = Some ErrMissingLiveInputID
       \<and> calls (snd (ListStreamLiveInputVideos (answers empty_result_body) (decodes_to partial_video_envelope) () (live_input_params ''acct1'' []) fresh_api)) = calls fresh_api"
  using missing_live_input_id_resource_operations
    [where so = "(live_input_params ''acct1'' [])"
       and uo = "(update_params ''acct1'' [])"
       and exec = "(answers empty_result_body)"
       and ui = "(decodes_to partial_input_envelope)"
       and uv = "(decodes_to partial_video_envelope)"
       and ctx = "()"
       and api = "fresh_api"]
  by simp

text \<open>
  C9. When both the account id and the live input id are empty, each of the four
  operations on one live input returns \<open>ErrMissingAccountID\<close>, which is a different
  error from \<open>ErrMissingLiveInputID\<close>: the account id is checked first.
\<close>

theorem account_id_check_precedes_live_input_id_check:
  assumes "sp_AccountID so = []"
    and "sp_LiveInputID so = []"
    and "up_AccountID uo = []"
    and "up_LiveInputID uo = []"
  shows
    "snd (fst (GetStreamLiveInput exec ui ctx so api)) = Some ErrMissingAccountID
     \<and> snd (fst (UpdateStreamLiveInput exec ui ctx uo api)) = Some ErrMissingAccountID
     \<and> fst (DeleteStreamLiveInput exec ctx so api) = Some ErrMissingAccountID
     \<and> snd (fst (ListStreamLiveInputVideos exec uv ctx so api)) = Some ErrMissingAccountID
     \<and> ErrMissingAccountID \<noteq> ErrMissingLiveInputID"
  using assms by (simp add: op_defs)

theorem account_id_check_precedes_live_input_id_check_witness:
  "sp_AccountID (live_input_params [] []) = []
   \<and> sp_LiveInputID (live_input_params [] []) = []
   \<and> up_AccountID (update_params [] []) = []
   \<and> up_LiveInputID (update_params [] []) = []
   \<and> snd (fst (GetStreamLiveInput (answers empty_result_body) (decodes_to partial_input_envelope) () (live_input_params [] []) fresh_api)) = Some ErrMissingAccountID
     \<and> snd (fst (UpdateStreamLiveInput (answers empty_result_body) (decodes_to partial_input_envelope) () (update_params [] []) fresh_api)) = Some ErrMissingAccountID
     \<and> fst (DeleteStreamLiveInput (answers empty_result_body) () (live_input_params [] []) fresh_api) = Some ErrMissingAccountID
     \<and> snd (fst (ListStreamLiveInputVideos (answers empty_result_body) (decodes_to partial_video_envelope) () (live_input_params [] []) fresh_api)) = Some ErrMissingAccountID
     \<and> ErrMissingAccountID \<noteq> ErrMissingLiveInputID"
  using account_id_check_precedes_live_input_id_check
    [where so = "(live_input_params [] [])"
       and uo = "(update_params [] [])"
       and exec = "(answers empty_result_body)"
       and ui = "(decodes_to partial_input_envelope)"
       and uv = "(decodes_to partial_video_envelope)"
       and ctx = "()"
       and api = "fresh_api"]
  by simp

subsection \<open>The request handed to the executor\<close>

text \<open>
  C4. \<open>GetStreamLiveInput\<close> and \<open>ListStreamLiveInputVideos\<close>, once both identifiers
  pass the checks, invoke the executor exactly once, with the method \<^verbatim>\<open>POST\<close>.
\<close>

theorem get_and_list_videos_use_post:
  assumes "sp_AccountID so \<noteq> []"
    and "sp_LiveInputID so \<noteq> []"
  shows
    "calls (snd (GetStreamLiveInput exec ui ctx so api)) =
       calls api @ [\<lparr>rq_ctx = ctx, rq_method = ''POST'',
                     rq_uri = ''/accounts/'' @ sp_AccountID so @ ''/stream/live_inputs/''
                                @ sp_LiveInputID so,
                     rq_params = ParamsLiveInput so\<rparr>]
     \<and> calls (snd (ListStreamLiveInputVideos exec uv ctx so api)) =
       calls api @ [\<lparr>rq_ctx = ctx, rq_method = ''POST'',
                     rq_uri = ''/accounts/'' @ sp_AccountID so @ ''/stream/live_inputs/''
                                @ sp_LiveInputID so @ ''/videos'',
                     rq_params = ParamsLiveInput so\<rparr>]"
  using assms
  by (simp add: GetStreamLiveInput_def ListStreamLiveInputVideos_def makeRequestContext_result
      MethodPost_def Let_def split: prod.splits)

theorem get_and_list_videos_use_post_witness:
  "sp_AccountID (live_input_params ''acct1'' ''li1'') \<noteq> []
   \<and> sp_LiveInputID (live_input_params ''acct1'' ''li1'') \<noteq> []
   \<and> calls (snd (GetStreamLiveInput (answers empty_result_body) (decodes_to partial_input_envelope) () (live_input_params ''acct1'' ''li1'') fresh_api)) =
       calls fresh_api @ [\<lparr>rq_ctx = (), rq_method = ''POST'',
                     rq_uri = ''/accounts/'' @ sp_AccountID (live_input_params ''acct1'' ''li1'') @ ''/stream/live_inputs/''
                                @ sp_LiveInputID (live_input_params ''acct1'' ''li1''),
                     rq_params = ParamsLiveInput (live_input_params ''acct1'' ''li1'')\<rparr>]
     \<and> calls (snd (ListStreamLiveInputVideos (answers empty_result_body) (decodes_to partial_video_envelope) () (live_input_params ''acct1'' ''li1'') fresh_api)) =
       calls fresh_api @ [\<lparr>rq_ctx = (), rq_method = ''POST'',
                     rq_uri = ''/accounts/'' @ sp_AccountID (live_input_params ''acct1'' ''li1'') @ ''/stream/live_inputs/''
                                @ sp_LiveInputID (live_input_params ''acct1'' ''li1'') @ ''/videos'',
                     rq_params = ParamsLiveInput (live_input_params ''acct1'' ''li1'')\<rparr>]"
  using get_and_list_videos_use_post
    [where so = "(live_input_params ''acct1'' ''li1'')"
       and exec = "(answers empty_result_body)"
       and ui = "(decodes_to partial_input_envelope)"
       and uv = "(decodes_to partial_video_envelope)"
       and ctx = "()"
       and api = "fresh_api"]
  by simp

text \<open>
  C6. For the account \<^verbatim>\<open>acct1\<close> and the live input \<^verbatim>\<open>li1\<close>, the URI that
  \<open>UpdateStreamLiveInput\<close> and \<open>DeleteStreamLiveInput\<close> hand to the executor is exactly
  \<^verbatim>\<open>/accounts/acct1/stream/live_inputs/li1\<close>, whatever the other fields of the
  parameters hold.
\<close>

theorem update_delete_uri_acct1_li1:
  "map rq_uri (calls (snd (UpdateStreamLiveInput exec ui ctx
        (uo\<lparr>up_AccountID := ''acct1'', up_LiveInputID := ''li1''\<rparr>) api)))
     = map rq_uri (calls api) @ [''/accounts/acct1/stream/live_inputs/li1'']
   \<and> map rq_uri (calls (snd (DeleteStreamLiveInput exec ctx
        \<lparr>sp_AccountID = ''acct1'', sp_LiveInputID = ''li1''\<rparr> api)))
     = map rq_uri (calls api) @ [''/accounts/acct1/stream/live_inputs/li1'']"
  by (simp add: UpdateStreamLiveInput_def DeleteStreamLiveInput_def makeRequestContext_result
      Let_def split: prod.splits)

text \<open>
  C8. \<open>DeleteStreamLiveInput\<close>, with both identifiers non-empty, invokes the executor
  once, with the method \<^verbatim>\<open>DELETE\<close> and the parameter struct as the body argument (the
  executor serialises it); when the executor reports no error, the operation returns
  no error. Its only return value is the error.
\<close>

theorem delete_request_and_result:
  assumes "sp_AccountID so \<noteq> []"
    and "sp_LiveInputID so \<noteq> []"
  shows
    "calls (snd (DeleteStreamLiveInput exec ctx so api)) =
       calls api @ [\<lparr>rq_ctx = ctx, rq_method = ''DELETE'',
                     rq_uri = ''/accounts/'' @ sp_AccountID so @ ''/stream/live_inputs/''
                                @ sp_LiveInputID so,
                     rq_params = ParamsLiveInput so\<rparr>]
     \<and> (snd (exec (calls api) \<lparr>rq_ctx = ctx, rq_method = ''DELETE'',
                     rq_uri = ''/accounts/'' @ sp_AccountID so @ ''/stream/live_inputs/''
                                @ sp_LiveInputID so,
                     rq_params = ParamsLiveInput so\<rparr>) = None
          \<longrightarrow> fst (DeleteStreamLiveInput exec ctx so api) = None)"
  using assms
  by (simp add: DeleteStreamLiveInput_def makeRequestContext_result MethodDelete_def Let_def
      split: prod.splits)

theorem delete_request_and_result_witness:
  "sp_AccountID (live_input_params ''acct1'' ''li1'') \<noteq> []
   \<and> sp_LiveInputID (live_input_params ''acct1'' ''li1'') \<noteq> []
   \<and> calls (snd (DeleteStreamLiveInput (answers empty_result_body) () (live_input_params ''acct1'' ''li1'') fresh_api)) =
       calls fresh_api @ [\<lparr>rq_ctx = (), rq_method = ''DELETE'',
                     rq_uri = ''/accounts/'' @ sp_AccountID (live_input_params ''acct1'' ''li1'') @ ''/stream/live_inputs/''
                                @ sp_LiveInputID (live_input_params ''acct1'' ''li1''),
                     rq_params = ParamsLiveInput (live_input_params ''acct1'' ''li1'')\<rparr>]
     \<and> snd ((answers empty_result_body) (calls fresh_api) \<lparr>rq_ctx = (), rq_method = ''DELETE'',
                     rq_uri = ''/accounts/'' @ sp_AccountID (live_input_params ''acct1'' ''li1'') @ ''/stream/live_inputs/''
                                @ sp_LiveInputID (live_input_params ''acct1'' ''li1''),
                     rq_params = ParamsLiveInput (live_input_params ''acct1'' ''li1'')\<rparr>) = None
     \<and> fst (DeleteStreamLiveInput (answers empty_result_body) () (live_input_params ''acct1'' ''li1'') fresh_api) = None"
  using delete_request_and_result
    [where so = "(live_input_params ''acct1'' ''li1'')"
       and exec = "(answers empty_result_body)"
       and ctx = "()"
       and api = "fresh_api"]
  by simp

subsection \<open>Results and errors\<close>

text \<open>
  C7. When the executor answers \<open>ListStreamLiveInputs\<close> without error and the decoded
  envelope holds an empty array as its result, the operation returns the empty sequence
  and no error.
\<close>

theorem list_empty_result_array:
  assumes "lp_AccountID lo \<noteq> []"
    and "exec (calls api) \<lparr>rq_ctx = ctx, rq_method = ''GET'',
           rq_uri = buildURI (''/accounts/'' @ lp_AccountID lo @ ''/stream/live_inputs'') lo,
           rq_params = ParamsNil\<rparr> = (res, None)"
    and "ul res = (resp, None)"
    and "lr_Result resp = Slice []"
  shows
    "fst (ListStreamLiveInputs buildURI exec ul ctx lo api) = (Slice [], None)"
  using assms
  by (simp add: ListStreamLiveInputs_def makeRequestContext_result MethodGet_def Let_def)

theorem list_empty_result_array_witness:
  "lp_AccountID (list_params ''acct1'') \<noteq> []
   \<and> (answers empty_result_body) (calls fresh_api) \<lparr>rq_ctx = (), rq_method = ''GET'',
           rq_uri = (\<lambda>p q. p) (''/accounts/'' @ lp_AccountID (list_params ''acct1'') @ ''/stream/live_inputs'') (list_params ''acct1''),
           rq_params = ParamsNil\<rparr> = (empty_result_body, None)
   \<and> (decodes_to empty_list_envelope) empty_result_body = (empty_list_envelope, None)
   \<and> lr_Result empty_list_envelope = Slice []
   \<and> fst (ListStreamLiveInputs (\<lambda>p q. p) (answers empty_result_body) (decodes_to empty_list_envelope) () (list_params ''acct1'') fresh_api) = (Slice [], None)"
  using list_empty_result_array
    [where lo = "(list_params ''acct1'')"
       and buildURI = "(\<lambda>p q. p)"
       and exec = "(answers empty_result_body)"
       and ul = "(decodes_to empty_list_envelope)"
       and res = "empty_result_body"
       and resp = "empty_list_envelope"
       and ctx = "()"
       and api = "fresh_api"]
  by simp

text \<open>
  C10. \<open>DeleteStreamLiveInput\<close> takes no decoder: whatever bytes the executor returns
  without error, the operation returns no error.
\<close>

theorem delete_ignores_response_body:
  assumes "sp_AccountID so \<noteq> []"
    and "sp_LiveInputID so \<noteq> []"
    and "exec (calls api) \<lparr>rq_ctx = ctx, rq_method = ''DELETE'',
           rq_uri = ''/accounts/'' @ sp_AccountID so @ ''/stream/live_inputs/'' @ sp_LiveInputID so,
           rq_params = ParamsLiveInput so\<rparr> = (res, None)"
  shows
    "fst (DeleteStreamLiveInput exec ctx so api) = None"
  using assms
  by (simp add: DeleteStreamLiveInput_def makeRequestContext_result MethodDelete_def Let_def)

theorem delete_ignores_response_body_witness:
  "sp_AccountID (live_input_params ''acct1'' ''li1'') \<noteq> []
   \<and> sp_LiveInputID (live_input_params ''acct1'' ''li1'') \<noteq> []
   \<and> (answers truncated_body) (calls fresh_api) \<lparr>rq_ctx = (), rq_method = ''DELETE'',
           rq_uri = ''/accounts/'' @ sp_AccountID (live_input_params ''acct1'' ''li1'') @ ''/stream/live_inputs/'' @ sp_LiveInputID (live_input_params ''acct1'' ''li1''),
           rq_params = ParamsLiveInput (live_input_params ''acct1'' ''li1'')\<rparr> = (truncated_body, None)
   \<and> fst (DeleteStreamLiveInput (answers truncated_body) () (live_input_params ''acct1'' ''li1'') fresh_api) = None"
  using delete_ignores_response_body
    [where so = "(live_input_params ''acct1'' ''li1'')"
       and exec = "(answers truncated_body)"
       and res = "truncated_body"
       and ctx = "()"
       and api = "fresh_api"]
  by simp

text \<open>
  C5. Each operation that decodes the response (all but \<open>DeleteStreamLiveInput\<close>,
  which decodes nothing), taken on its own: when the executor answers its request
  without error and decoding the body fails, the operation returns the decoder's error
  together with the zero-valued struct, or the empty sequence for the two list
  operations, whatever the decoder had written into the envelope before it failed.
\<close>

theorem decode_error_gives_zero_result:
  "(lp_AccountID lo \<noteq> []
      \<and> exec (calls api) \<lparr>rq_ctx = ctx, rq_method = ''GET'',
            rq_uri = buildURI (''/accounts/'' @ lp_AccountID lo @ ''/stream/live_inputs'') lo,
            rq_params = ParamsNil\<rparr> = (resL, None)
      \<and> ul resL = (vL, Some eL)
    \<longrightarrow> fst (ListStreamLiveInputs buildURI exec ul ctx lo api) = (Slice [], Some eL))
   \<and> (cp_AccountID co \<noteq> []
      \<and> exec (calls api) \<lparr>rq_ctx = ctx, rq_method = ''POST'',
            rq_uri = ''/accounts/'' @ cp_AccountID co @ ''/stream/live_inputs'',
            rq_params = ParamsCreate co\<rparr> = (resC, None)
      \<and> ui resC = (vC, Some eC)
    \<longrightarrow> fst (CreateStreamLiveInput exec ui ctx co api) = (StreamLiveInput_zero, Some eC))
   \<and> (sp_AccountID so \<noteq> [] \<and> sp_LiveInputID so \<noteq> []
      \<and> exec (calls api) \<lparr>rq_ctx = ctx, rq_method = ''POST'',
            rq_uri = ''/accounts/'' @ sp_AccountID so @ ''/stream/live_inputs/''
                       @ sp_LiveInputID so,
            rq_params = ParamsLiveInput so\<rparr> = (resG, None)
      \<and> ui resG = (vG, Some eG)
    \<longrightarrow> fst (GetStreamLiveInput exec ui ctx so api) = (StreamLiveInput_zero, Some eG))
   \<and> (up_AccountID uo \<noteq> [] \<and> up_LiveInputID uo \<noteq> []
      \<and> exec (calls api) \<lparr>rq_ctx = ctx, rq_method = ''PUT'',
            rq_uri = ''/accounts/'' @ up_AccountID uo @ ''/stream/live_inputs/''
                       @ up_LiveInputID uo,
            rq_params = ParamsUpdate uo\<rparr> = (resU, None)
      \<and> ui resU = (vU, Some eU)
    \<longrightarrow> fst (UpdateStreamLiveInput exec ui ctx uo api) = (StreamLiveInput_zero, Some eU))
   \<and> (sp_AccountID so \<noteq> [] \<and> sp_LiveInputID so \<noteq> []
      \<and> exec (calls api) \<lparr>rq_ctx = ctx, rq_method = ''POST'',
            rq_uri = ''/accounts/'' @ sp_AccountID so @ ''/stream/live_inputs/''
                       @ sp_LiveInputID so @ ''/videos'',
            rq_params = ParamsLiveInput so\<rparr> = (resV, None)
      \<and> uv resV = (vV, Some eV)
    \<longrightarrow> fst (ListStreamLiveInputVideos exec uv ctx so api) = (Slice [], Some eV))"
proof (intro conjI impI)
  assume "lp_AccountID lo \<noteq> []
      \<and> exec (calls api) \<lparr>rq_ctx = ctx, rq_method = ''GET'',
            rq_uri = buildURI (''/accounts/'' @ lp_AccountID lo @ ''/stream/live_inputs'') lo,
            rq_params = ParamsNil\<rparr> = (resL, None)
      \<and> ul resL = (vL, Some eL)"
  then show "fst (ListStreamLiveInputs buildURI exec ul ctx lo api) = (Slice [], Some eL)"
    by (simp add: ListStreamLiveInputs_def makeRequestContext_result MethodGet_def)
next
  assume "cp_AccountID co \<noteq> []
      \<and> exec (calls api) \<lparr>rq_ctx = ctx, rq_method = ''POST'',
            rq_uri = ''/accounts/'' @ cp_AccountID co @ ''/stream/live_inputs'',
            rq_params = ParamsCreate co\<rparr> = (resC, None)
      \<and> ui resC = (vC, Some eC)"
  then show "fst (CreateStreamLiveInput exec ui ctx co api) = (StreamLiveInput_zero, Some eC)"
    by (simp add: CreateStreamLiveInput_def makeRequestContext_result MethodPost_def)
next
  assume "sp_AccountID so \<noteq> [] \<and> sp_LiveInputID so \<noteq> []
      \<and> exec (calls api) \<lparr>rq_ctx = ctx, rq_method = ''POST'',
            rq_uri = ''/accounts/'' @ sp_AccountID so @ ''/stream/live_inputs/''
                       @ sp_LiveInputID so,
            rq_params = ParamsLiveInput so\<rparr> = (resG, None)
      \<and> ui resG = (vG, Some eG)"
  then show "fst (GetStreamLiveInput exec ui ctx so api) = (StreamLiveInput_zero, Some eG)"
    by (simp add: GetStreamLiveInput_def makeRequestContext_result MethodPost_def)
next
  assume "up_AccountID uo \<noteq> [] \<and> up_LiveInputID uo \<noteq> []
      \<and> exec (calls api) \<lparr>rq_ctx = ctx, rq_method = ''PUT'',
            rq_uri = ''/accounts/'' @ up_AccountID uo @ ''/stream/live_inputs/''
                       @ up_LiveInputID uo,
            rq_params = ParamsUpdate uo\<rparr> = (resU, None)
      \<and> ui resU = (vU, Some eU)"
  then show "fst (UpdateStreamLiveInput exec ui ctx uo api) = (StreamLiveInput_zero, Some eU)"
    by (simp add: UpdateStreamLiveInput_def makeRequestContext_result MethodPut_def)
next
  assume "sp_AccountID so \<noteq> [] \<and> sp_LiveInputID so \<noteq> []
      \<and> exec (calls api) \<lparr>rq_ctx = ctx, rq_method = ''POST'',
            rq_uri = ''/accounts/'' @ sp_AccountID so @ ''/stream/live_inputs/''
                       @ sp_LiveInputID so @ ''/videos'',
            rq_params = ParamsLiveInput so\<rparr> = (resV, None)
      \<and> uv resV = (vV, Some eV)"
  then show "fst (ListStreamLiveInputVideos exec uv ctx so api) = (Slice [], Some eV)"
    by (simp add: ListStreamLiveInputVideos_def makeRequestContext_result MethodPost_def)
qed

theorem decode_error_gives_zero_result_witness:
  "lp_AccountID (list_params ''acct1'') \<noteq> []
   \<and> answers truncated_body (calls fresh_api) \<lparr>rq_ctx = (), rq_method = ''GET'',
         rq_uri = ''/accounts/acct1/stream/live_inputs'', rq_params = ParamsNil\<rparr>
       = (truncated_body, None)
   \<and> fails_leaving partial_list_envelope truncated_body
       = (partial_list_envelope, Some decode_error)
   \<and> fst (ListStreamLiveInputs (\<lambda>p q. p) (answers truncated_body)
             (fails_leaving partial_list_envelope) () (list_params ''acct1'') fresh_api)
       = (Slice [], Some decode_error)
   \<and> cp_AccountID (create_params ''acct1'') \<noteq> []
   \<and> answers truncated_body (calls fresh_api) \<lparr>rq_ctx = (), rq_method = ''POST'',
         rq_uri = ''/accounts/acct1/stream/live_inputs'',
         rq_params = ParamsCreate (create_params ''acct1'')\<rparr>
       = (truncated_body, None)
   \<and> fails_leaving partial_input_envelope truncated_body
       = (partial_input_envelope, Some decode_error)
   \<and> fst (CreateStreamLiveInput (answers truncated_body)
             (fails_leaving partial_input_envelope) () (create_params ''acct1'') fresh_api)
       = (StreamLiveInput_zero, Some decode_error)
   \<and> sp_AccountID (live_input_params ''acct1'' ''li1'') \<noteq> []
   \<and> sp_LiveInputID (live_input_params ''acct1'' ''li1'') \<noteq> []
   \<and> answers truncated_body (calls fresh_api) \<lparr>rq_ctx = (), rq_method = ''POST'',
         rq_uri = ''/accounts/acct1/stream/live_inputs/li1'',
         rq_params = ParamsLiveInput (live_input_params ''acct1'' ''li1'')\<rparr>
       = (truncated_body, None)
   \<and> fst (GetStreamLiveInput (answers truncated_body)
             (fails_leaving partial_input_envelope) () (live_input_params ''acct1'' ''li1'')
             fresh_api)
       = (StreamLiveInput_zero, Some decode_error)
   \<and> ir_Result partial_input_envelope \<noteq> StreamLiveInput_zero
   \<and> up_AccountID (update_params ''acct1'' ''li1'') \<noteq> []
   \<and> up_LiveInputID (update_params ''acct1'' ''li1'') \<noteq> []
   \<and> answers truncated_body (calls fresh_api) \<lparr>rq_ctx = (), rq_method = ''PUT'',
         rq_uri = ''/accounts/acct1/stream/live_inputs/li1'',
         rq_params = ParamsUpdate (update_params ''acct1'' ''li1'')\<rparr>
       = (truncated_body, None)
   \<and> fst (UpdateStreamLiveInput (answers truncated_body)
             (fails_leaving partial_input_envelope) () (update_params ''acct1'' ''li1'')
             fresh_api)
       = (StreamLiveInput_zero, Some decode_error)
   \<and> answers truncated_body (calls fresh_api) \<lparr>rq_ctx = (), rq_method = ''POST'',
         rq_uri = ''/accounts/acct1/stream/live_inputs/li1/videos'',
         rq_params = ParamsLiveInput (live_input_params ''acct1'' ''li1'')\<rparr>
       = (truncated_body, None)
   \<and> fails_leaving partial_video_envelope truncated_body
       = (partial_video_envelope, Some decode_error)
   \<and> fst (ListStreamLiveInputVideos (answers truncated_body)
             (fails_leaving partial_video_envelope) () (live_input_params ''acct1'' ''li1'')
             fresh_api)
       = (Slice [], Some decode_error)"
  using decode_error_gives_zero_result
    [where lo = "list_params ''acct1''"
       and co = "create_params ''acct1''"
       and so = "live_input_params ''acct1'' ''li1''"
       and uo = "update_params ''acct1'' ''li1''"
       and buildURI = "\<lambda>p q. p"
       and exec = "answers truncated_body"
       and ul = "fails_leaving partial_list_envelope"
       and ui = "fails_leaving partial_input_envelope"
       and uv = "fails_leaving partial_video_envelope"
       and ctx = "()"
       and api = "fresh_api"
       and resL = "truncated_body" and vL = "partial_list_envelope" and eL = "decode_error"
       and resC = "truncated_body" and vC = "partial_input_envelope" and eC = "decode_error"
       and resG = "truncated_body" and vG = "partial_input_envelope" and eG = "decode_error"
       and resU = "truncated_body" and vU = "partial_input_envelope" and eU = "decode_error"
       and resV = "truncated_body" and vV = "partial_video_envelope" and eV = "decode_error"]
  by (simp add: StreamLiveInput_zero_def)

text \<open>
  C3. The claim is that every error outcome of the two list operations comes with an
  empty, non-nil sequence. At an empty account id \<open>ListStreamLiveInputs\<close> returns the
  \<^verbatim>\<open>nil\<close> slice, which is not the empty slice \<^verbatim>\<open>[]StreamLiveInputListItem{}\<close> that its
  other two error returns give.
\<close>

theorem list_nil_slice_on_missing_account_id:
  "fst (ListStreamLiveInputs buildURI exec ul ctx (lo\<lparr>lp_AccountID := []\<rparr>) api)
     = (NilSlice, Some ErrMissingAccountID)
   \<and> (NilSlice :: StreamLiveInputListItem slice) \<noteq> Slice []"
  by (simp add: ListStreamLiveInputs_def)

text \<open>
  Every other error return of the two list operations does carry the empty slice.
\<close>

lemma list_live_inputs_later_errors_empty_slice:
  assumes "lp_AccountID lo \<noteq> []"
    and "snd (fst (ListStreamLiveInputs buildURI exec ul ctx lo api)) \<noteq> None"
  shows "fst (fst (ListStreamLiveInputs buildURI exec ul ctx lo api)) = Slice []"
  using assms
  by (simp add: ListStreamLiveInputs_def makeRequestContext_result Let_def
      split: prod.splits if_splits)

lemma list_videos_errors_empty_slice:
  assumes "snd (fst (ListStreamLiveInputVideos exec uv ctx so api)) \<noteq> None"
  shows "fst (fst (ListStreamLiveInputVideos exec uv ctx so api)) = Slice []"
  using assms
  by (simp add: ListStreamLiveInputVideos_def makeRequestContext_result Let_def
      split: prod.splits if_splits)

end
